theory Spec2Isabelle
  imports Complex_Main
begin

section \<open>Strings\<close>

text \<open>
  A Python \<open>str\<close> is modelled as a list of \<^typ>\<open>char\<close>, each standing for one code point
  below 256.  The character tests below are Python's, restricted to that range.
\<close>

definition code :: "char \<Rightarrow> nat" where
  "code c = of_char c"

definition newline :: char where
  "newline = CHR 0x0A"

text \<open>\<open>str.isspace\<close> on one code point; also the class \<open>\s\<close> of \<open>re\<close> on \<open>str\<close> patterns.\<close>

definition py_isspace :: "char \<Rightarrow> bool" where
  "py_isspace c = (code c \<in> {9, 10, 11, 12, 13, 28, 29, 30, 31, 32, 133, 160})"

text \<open>The class \<open>\d\<close> (and \<open>[0-9]\<close>): below 256 the only decimal digits are the ASCII ones.\<close>

definition is_digit :: "char \<Rightarrow> bool" where
  "is_digit c = (48 \<le> code c \<and> code c \<le> 57)"

definition in_range :: "char \<Rightarrow> char \<Rightarrow> char \<Rightarrow> bool" where
  "in_range lo hi c = (code lo \<le> code c \<and> code c \<le> code hi)"

definition is_upper :: "char \<Rightarrow> bool" where
  "is_upper c = in_range CHR ''A'' CHR ''Z'' c"

definition is_alnum :: "char \<Rightarrow> bool" where
  "is_alnum c = (in_range CHR ''A'' CHR ''Z'' c \<or> in_range CHR ''a'' CHR ''z'' c
                 \<or> in_range CHR ''0'' CHR ''9'' c)"

text \<open>\<open>s.strip()\<close>, \<open>s.rstrip("\n")\<close>, \<open>s.split(",")\<close>, \<open>s.startswith("#")\<close>, \<open>sep.join(xs)\<close>.\<close>

definition rstrip_chars :: "(char \<Rightarrow> bool) \<Rightarrow> string \<Rightarrow> string" where
  "rstrip_chars P s = rev (dropWhile P (rev s))"

definition strip :: "string \<Rightarrow> string" where
  "strip s = rstrip_chars py_isspace (dropWhile py_isspace s)"

definition rstrip_newline :: "string \<Rightarrow> string" where
  "rstrip_newline s = rstrip_chars (\<lambda>c. c = newline) s"

fun split_on :: "char \<Rightarrow> string \<Rightarrow> string list" where
  "split_on sep [] = [[]]"
| "split_on sep (c # cs) =
     (if c = sep then [] # split_on sep cs
      else (case split_on sep cs of
              [] \<Rightarrow> [[c]]
            | w # ws \<Rightarrow> (c # w) # ws))"

definition startswith_hash :: "string \<Rightarrow> bool" where
  "startswith_hash s = (case s of [] \<Rightarrow> False | c # _ \<Rightarrow> c = CHR ''#'')"

fun join :: "string \<Rightarrow> string list \<Rightarrow> string" where
  "join sep [] = []"
| "join sep [x] = x"
| "join sep (x # y # ys) = x @ sep @ join sep (y # ys)"

text \<open>Python's \<open><\<close> on two \<open>str\<close>: lexicographic on code points.\<close>

fun str_lt :: "string \<Rightarrow> string \<Rightarrow> bool" where
  "str_lt [] [] = False"
| "str_lt [] (y # ys) = True"
| "str_lt (x # xs) [] = False"
| "str_lt (x # xs) (y # ys) =
     (if code x < code y then True else if code y < code x then False else str_lt xs ys)"

section \<open>Regular expressions\<close>

text \<open>
  The fragment of \<open>re\<close> that the program and \<open>datetime.strptime\<close> use.  A match is computed
  the way the backtracking engine does: \<open>rmatch r st\<close> lists every way \<open>r\<close> can match from
  state \<open>st\<close>, in the order the engine tries them, so the engine's answer is the head of
  that list.  A state is the position reached, the text not yet consumed and the groups
  captured so far.
\<close>

datatype regex =
    Lit char
  | Cls "char \<Rightarrow> bool"
  | Rep "char \<Rightarrow> bool" nat "nat option"
  | Seq regex regex
  | Alt regex regex
  | Grp string regex
  | Bol
  | Eol

type_synonym mstate = "nat \<times> string \<times> (string \<times> string) list"

fun rmatch :: "regex \<Rightarrow> mstate \<Rightarrow> mstate list" where
  "rmatch (Lit c) (i, s, g) =
     (case s of [] \<Rightarrow> [] | x # xs \<Rightarrow> if x = c then [(Suc i, xs, g)] else [])"
| "rmatch (Cls P) (i, s, g) =
     (case s of [] \<Rightarrow> [] | x # xs \<Rightarrow> if P x then [(Suc i, xs, g)] else [])"
| "rmatch (Rep P lo hi) (i, s, g) =
     (let n = length (takeWhile P s);
          k = (case hi of None \<Rightarrow> n | Some h \<Rightarrow> min h n)
      in map (\<lambda>j. (i + j, drop j s, g)) (rev [lo ..< Suc k]))"
| "rmatch (Seq a b) st = concat (map (rmatch b) (rmatch a st))"
| "rmatch (Alt a b) st = rmatch a st @ rmatch b st"
| "rmatch (Grp name a) (i, s, g) =
     map (\<lambda>(j, r, g'). (j, r, g' @ [(name, take (j - i) s)])) (rmatch a (i, s, g))"
| "rmatch Bol (i, s, g) = (if i = 0 then [(i, s, g)] else [])"
| "rmatch Eol (i, s, g) = (if s = [] \<or> s = [newline] then [(i, s, g)] else [])"

text \<open>\<open>re.match(r, s)\<close>: the first match starting at position 0, or \<open>None\<close>.\<close>

definition re_match :: "regex \<Rightarrow> string \<Rightarrow> mstate option" where
  "re_match r s = (case rmatch r (0, s, []) of [] \<Rightarrow> None | m # _ \<Rightarrow> Some m)"

text \<open>\<open>^[A-Za-z0-9]{2,8}$\<close> and \<open>^[A-Z]{3}$\<close>.\<close>

definition flight_id_re :: regex where
  "flight_id_re = Seq Bol (Seq (Rep is_alnum 2 (Some 8)) Eol)"

definition airport_re :: regex where
  "airport_re = Seq Bol (Seq (Rep is_upper 3 (Some 3)) Eol)"

section \<open>Dates and times\<close>

record datetime =
  year :: nat
  month :: nat
  day :: nat
  hour :: nat
  minute :: nat

text \<open>\<open>a < b\<close> on two naive \<open>datetime\<close> objects: the fields compared in order.\<close>

definition dt_key :: "datetime \<Rightarrow> nat list" where
  "dt_key d = [year d, month d, day d, hour d, minute d]"

fun key_lt :: "nat list \<Rightarrow> nat list \<Rightarrow> bool" where
  "key_lt (x # xs) (y # ys) = (x < y \<or> (x = y \<and> key_lt xs ys))"
| "key_lt _ _ = False"

definition dt_lt :: "datetime \<Rightarrow> datetime \<Rightarrow> bool" where
  "dt_lt a b = key_lt (dt_key a) (dt_key b)"

definition is_leap :: "nat \<Rightarrow> bool" where
  "is_leap y = (y mod 4 = 0 \<and> (y mod 100 \<noteq> 0 \<or> y mod 400 = 0))"

definition days_in_month :: "nat \<Rightarrow> nat \<Rightarrow> nat" where
  "days_in_month y m =
     (if m = 2 then (if is_leap y then 29 else 28)
      else if m \<in> {4, 6, 9, 11} then 30 else 31)"

text \<open>
  \<open>datetime.strptime(s, "%Y-%m-%d %H:%M")\<close>.  The library turns the format into the
  regular expression
  \<^verbatim>\<open>(?P<Y>\d\d\d\d)-(?P<m>1[0-2]|0[1-9]|[1-9])-(?P<d>3[0-1]|[1-2]\d|0[1-9]|[1-9]| [1-9])\s+(?P<H>2[0-3]|[0-1]\d|\d):(?P<M>[0-5]\d|\d)\<close>,
  matches it at the start of the text, fails unless that match ends where the text
  ends, converts the groups with \<open>int\<close> and builds the date, which fails for year 0 and
  for a day the month does not have.
\<close>

definition digit :: regex where
  "digit = Cls is_digit"

definition year_re :: regex where
  "year_re = Seq digit (Seq digit (Seq digit digit))"

definition month_re :: regex where
  "month_re = Alt (Seq (Lit CHR ''1'') (Cls (in_range CHR ''0'' CHR ''2'')))
             (Alt (Seq (Lit CHR ''0'') (Cls (in_range CHR ''1'' CHR ''9'')))
                  (Cls (in_range CHR ''1'' CHR ''9'')))"

definition day_re :: regex where
  "day_re = Alt (Seq (Lit CHR ''3'') (Cls (in_range CHR ''0'' CHR ''1'')))
           (Alt (Seq (Cls (in_range CHR ''1'' CHR ''2'')) digit)
           (Alt (Seq (Lit CHR ''0'') (Cls (in_range CHR ''1'' CHR ''9'')))
           (Alt (Cls (in_range CHR ''1'' CHR ''9''))
                (Seq (Lit CHR '' '') (Cls (in_range CHR ''1'' CHR ''9''))))))"

definition hour_re :: regex where
  "hour_re = Alt (Seq (Lit CHR ''2'') (Cls (in_range CHR ''0'' CHR ''3'')))
            (Alt (Seq (Cls (in_range CHR ''0'' CHR ''1'')) digit)
                 digit)"

definition minute_re :: regex where
  "minute_re = Alt (Seq (Cls (in_range CHR ''0'' CHR ''5'')) digit) digit"

definition strptime_re :: regex where
  "strptime_re =
     Seq (Grp ''Y'' year_re)
    (Seq (Lit CHR ''-'')
    (Seq (Grp ''m'' month_re)
    (Seq (Lit CHR ''-'')
    (Seq (Grp ''d'' day_re)
    (Seq (Rep py_isspace 1 None)
    (Seq (Grp ''H'' hour_re)
    (Seq (Lit CHR '':'')
         (Grp ''M'' minute_re))))))))"

text \<open>\<open>int(s)\<close> on a captured group: decimal digits, possibly after one space.\<close>

definition digit_val :: "char \<Rightarrow> nat" where
  "digit_val c = code c - 48"

definition int_of_group :: "string \<Rightarrow> nat" where
  "int_of_group s = foldl (\<lambda>acc c. 10 * acc + digit_val c) 0 (dropWhile py_isspace s)"

definition group :: "(string \<times> string) list \<Rightarrow> string \<Rightarrow> nat" where
  "group g name = (case map_of g name of None \<Rightarrow> 0 | Some s \<Rightarrow> int_of_group s)"

definition strptime :: "string \<Rightarrow> datetime option" where
  "strptime s =
     (case re_match strptime_re s of
        None \<Rightarrow> None
      | Some (e, rest, g) \<Rightarrow>
          if e \<noteq> length s then None
          else let y = group g ''Y''; m = group g ''m''; d = group g ''d'' in
            if y < 1 \<or> days_in_month y m < d then None
            else Some \<lparr>year = y, month = m, day = d,
                       hour = group g ''H'', minute = group g ''M''\<rparr>)"

section \<open>Floating-point numbers\<close>

text \<open>
  A Python \<open>float\<close> is an IEEE 754 double: a finite value (kept here as the rational it
  denotes; the sign of zero is dropped, since the program only compares), an infinity
  or a NaN.
\<close>

datatype pyfloat = Fin rat | PosInf | NegInf | NaN

datatype error = ValueError | TypeError | OverflowError | FileNotFoundError

text \<open>\<open>a > b\<close> on two floats; every comparison with a NaN is false.\<close>

fun float_gt :: "pyfloat \<Rightarrow> pyfloat \<Rightarrow> bool" where
  "float_gt NaN b = False"
| "float_gt a NaN = False"
| "float_gt PosInf b = (b \<noteq> PosInf)"
| "float_gt NegInf b = False"
| "float_gt (Fin a) PosInf = False"
| "float_gt (Fin a) NegInf = True"
| "float_gt (Fin a) (Fin b) = (b < a)"

text \<open>
  Rounding the positive rational \<open>a / b\<close> to the nearest double, ties to even: 53
  significant bits, least exponent \<open>-1074\<close>, and overflow from \<open>2 ^ 1024\<close> on.
  \<open>binade a b\<close> is the exponent of the leading bit of \<open>a / b\<close>.
\<close>

fun bitlen :: "nat \<Rightarrow> nat" where
  "bitlen n = (if n = 0 then 0 else Suc (bitlen (n div 2)))"

declare bitlen.simps [simp del]

definition pow2 :: "int \<Rightarrow> rat" where
  "pow2 e = (if 0 \<le> e then 2 ^ nat e else 1 / 2 ^ nat (- e))"

definition round_half_even_div :: "int \<Rightarrow> int \<Rightarrow> int" where
  "round_half_even_div a b =
     (let f = a div b; r = a mod b
      in if 2 * r < b then f else if b < 2 * r then f + 1
         else if even f then f else f + 1)"

definition binade :: "int \<Rightarrow> int \<Rightarrow> int" where
  "binade a b =
     (let e = int (bitlen (nat a)) - int (bitlen (nat b))
      in if (if 0 \<le> e then b * 2 ^ nat e \<le> a else b \<le> a * 2 ^ nat (- e))
         then e else e - 1)"

definition round_pos :: "int \<Rightarrow> int \<Rightarrow> rat option" where
  "round_pos a b =
     (let p = max (binade a b - 52) (- 1074);
          m = (if 0 \<le> p then round_half_even_div a (b * 2 ^ nat p)
               else round_half_even_div (a * 2 ^ nat (- p)) b)
      in if 0 \<le> p \<and> 2 ^ 1024 \<le> m * 2 ^ nat p then None
         else Some (of_int m * pow2 p))"

text \<open>The double nearest to \<open>\<plusminus> m * 10 ^ e\<close>; out of range it is an infinity.\<close>

definition round_double :: "bool \<Rightarrow> nat \<Rightarrow> int \<Rightarrow> pyfloat" where
  "round_double neg m e =
     (if m = 0 then Fin 0
      else case (if 0 \<le> e then round_pos (int m * 10 ^ nat e) 1
                 else round_pos (int m) (10 ^ nat (- e))) of
             None \<Rightarrow> (if neg then NegInf else PosInf)
           | Some v \<Rightarrow> Fin (if neg then - v else v))"

text \<open>
  \<open>float(s)\<close> on a \<open>str\<close>.  Whitespace at both ends is dropped (the ASCII blanks and the
  blanks above 127); single underscores between digits are removed; what is left is a
  decimal numeral with an optional sign, fraction and exponent, correctly rounded, or
  one of \<open>inf\<close>, \<open>infinity\<close>, \<open>nan\<close> in any letter case.  Anything else raises
  \<open>ValueError\<close>.
\<close>

definition float_ws :: "char \<Rightarrow> bool" where
  "float_ws c = (code c \<in> {9, 10, 11, 12, 13, 32, 133, 160})"

fun strip_underscores :: "char \<Rightarrow> string \<Rightarrow> string option" where
  "strip_underscores prev [] = (if prev = CHR ''_'' then None else Some [])"
| "strip_underscores prev (c # cs) =
     (if c = CHR ''_'' then
        (if is_digit prev then strip_underscores c cs else None)
      else if prev = CHR ''_'' \<and> \<not> is_digit c then None
      else map_option ((#) c) (strip_underscores c cs))"

definition nat_of_digits :: "string \<Rightarrow> nat" where
  "nat_of_digits ds = foldl (\<lambda>acc c. 10 * acc + digit_val c) 0 ds"

definition lower :: "char \<Rightarrow> char" where
  "lower c = (if in_range CHR ''A'' CHR ''Z'' c then char_of (code c + 32) else c)"

definition take_sign :: "string \<Rightarrow> bool \<times> string" where
  "take_sign s =
     (case s of
        [] \<Rightarrow> (False, s)
      | c # r \<Rightarrow> if c = CHR ''-'' then (True, r)
                 else if c = CHR ''+'' then (False, r) else (False, s))"

definition parse_decimal :: "string \<Rightarrow> (nat \<times> int) option" where
  "parse_decimal s =
     (let ip = takeWhile is_digit s;
          r1 = dropWhile is_digit s;
          (fp, r2) = (case r1 of
                        [] \<Rightarrow> ([], r1)
                      | c # t \<Rightarrow> if c = CHR ''.''
                                 then (takeWhile is_digit t, dropWhile is_digit t)
                                 else ([], r1))
      in if ip @ fp = [] then None
         else let m = nat_of_digits (ip @ fp); k = int (length fp) in
           (case r2 of
              [] \<Rightarrow> Some (m, - k)
            | c # t \<Rightarrow>
                if c = CHR ''e'' \<or> c = CHR ''E'' then
                  (let (neg, ds) = take_sign t
                   in if ds \<noteq> [] \<and> list_all is_digit ds
                      then Some (m, (if neg then - int (nat_of_digits ds)
                                     else int (nat_of_digits ds)) - k)
                      else None)
                else None))"

definition py_float_str :: "string \<Rightarrow> error + pyfloat" where
  "py_float_str s =
     (let t = rstrip_chars float_ws (dropWhile float_ws s) in
      if t = [] then Inl ValueError
      else case (if CHR ''_'' \<in> set t then strip_underscores (CHR 0x00) t else Some t) of
        None \<Rightarrow> Inl ValueError
      | Some u \<Rightarrow>
          (let (neg, b) = take_sign u in
           case parse_decimal b of
             Some (m, e) \<Rightarrow> Inr (round_double neg m e)
           | None \<Rightarrow>
               (let w = map lower b in
                if w = ''inf'' \<or> w = ''infinity'' then Inr (if neg then NegInf else PosInf)
                else if w = ''nan'' then Inr NaN
                else Inl ValueError)))"

section \<open>The record validator\<close>

text \<open>
  \<open>validate_record(fields)\<close>.  Unpacking a list that does not have six elements raises
  \<open>ValueError\<close>; every \<open>try\<close>/\<open>except Exception\<close> of the source is the error branch of
  the value it guards.
\<close>

fun validate_record :: "string list \<Rightarrow> error + string list" where
  "validate_record [flight_id, origin, destination, dep_dt, arr_dt, price] =
     (let errors = [];
          errors = (if re_match flight_id_re flight_id = None
                    then errors @ [''Invalid flight_id''] else errors);
          errors = (if re_match airport_re origin = None
                    then errors @ [''Invalid origin''] else errors);
          errors = (if re_match airport_re destination = None
                    then errors @ [''Invalid destination''] else errors);
          dep_dt_obj = strptime dep_dt;
          errors = (if dep_dt_obj = None
                    then errors @ [''Invalid departure_datetime''] else errors);
          arr_dt_obj = strptime arr_dt;
          errors = (if arr_dt_obj = None
                    then errors @ [''Invalid arrival_datetime''] else errors);
          errors = (case (dep_dt_obj, arr_dt_obj) of
                      (Some d, Some a) \<Rightarrow>
                        if \<not> dt_lt d a
                        then errors @ [''Arrival not after departure''] else errors
                    | _ \<Rightarrow> errors);
          errors = (case py_float_str price of
                      Inr price_val \<Rightarrow>
                        if \<not> float_gt price_val (Fin 0)
                        then errors @ [''Invalid price''] else errors
                    | Inl _ \<Rightarrow> errors @ [''Invalid price''])
      in Inr errors)"
| "validate_record _ = Inl ValueError"

section \<open>The line parser\<close>

text \<open>
  Python values that a record or a query can hold after \<open>json.load\<close>, or after parsing
  a line: \<open>None\<close>, a \<open>bool\<close>, an \<open>int\<close>, a \<open>float\<close> or a \<open>str\<close>.  A \<open>dict\<close> with \<open>str\<close> keys
  is an association list in insertion order.
\<close>

datatype pyval = VNone | VBool bool | VInt int | VFloat pyfloat | VStr string

type_synonym pydict = "(string \<times> pyval) list"

type_synonym error_entry = "int \<times> string \<times> string"

text \<open>
  The file system maps a path to the lines that iterating over the open file yields
  (each with its line terminator, if it has one); a path it does not know raises
  \<open>FileNotFoundError\<close>.
\<close>

type_synonym filesystem = "string \<Rightarrow> string list option"

definition make_flight :: "string list \<Rightarrow> pydict" where
  "make_flight parts =
     [(''flight_id'', VStr (parts ! 0)),
      (''origin'', VStr (parts ! 1)),
      (''destination'', VStr (parts ! 2)),
      (''departure_datetime'', VStr (parts ! 3)),
      (''arrival_datetime'', VStr (parts ! 4)),
      (''price'', VStr (parts ! 5))]"

text \<open>The body of the \<open>for raw in fh\<close> loop, with \<open>valid\<close>, \<open>errors\<close> and \<open>ln\<close> (here \<open>lineno\<close>) as its state.\<close>

fun parse_lines ::
  "string list \<Rightarrow> pydict list \<Rightarrow> error_entry list \<Rightarrow> int
     \<Rightarrow> error + (pydict list \<times> error_entry list \<times> int)" where
  "parse_lines [] valid errors lineno = Inr (valid, errors, lineno)"
| "parse_lines (raw # rest) valid errors lineno =
     (let line = rstrip_newline raw;
          stripped = strip line
      in if stripped = [] then parse_lines rest valid errors (lineno + 1)
         else if startswith_hash stripped
         then parse_lines rest valid (errors @ [(lineno, line, ''Comment'')]) (lineno + 1)
         else let parts = map strip (split_on CHR '','' line)
           in if length parts \<noteq> 6
              then parse_lines rest valid
                     (errors @ [(lineno, line, ''Invalid number of fields'')]) (lineno + 1)
              else case validate_record parts of
                     Inl e \<Rightarrow> Inl e
                   | Inr issues \<Rightarrow>
                       if issues \<noteq> []
                       then parse_lines rest valid
                              (errors @ [(lineno, line, join '', '' issues)]) (lineno + 1)
                       else parse_lines rest (valid @ [make_flight parts]) errors (lineno + 1))"

definition parse_csv_file ::
  "filesystem \<Rightarrow> string \<Rightarrow> int \<Rightarrow> error + (pydict list \<times> error_entry list \<times> int)" where
  "parse_csv_file fs path start_line_no =
     (case fs path of
        None \<Rightarrow> Inl FileNotFoundError
      | Some raws \<Rightarrow> parse_lines raws [] [] start_line_no)"

section \<open>The batch orchestrator\<close>

text \<open>
  The parsing part of \<open>main\<close>: the file of \<open>-i\<close>, if given, then the sorted \<open>*.csv\<close> files of
  the directory of \<open>-d\<close>, each parsed from the line number the previous one returned,
  starting at 1.  Any exception ends the run (\<open>sys.exit(2)\<close>).
\<close>

fun parse_sources ::
  "filesystem \<Rightarrow> string list \<Rightarrow> pydict list \<Rightarrow> error_entry list \<Rightarrow> int
     \<Rightarrow> error + (pydict list \<times> error_entry list \<times> int)" where
  "parse_sources fs [] flights all_errors next_ln = Inr (flights, all_errors, next_ln)"
| "parse_sources fs (fpath # files) flights all_errors next_ln =
     (case parse_csv_file fs fpath next_ln of
        Inl e \<Rightarrow> Inl e
      | Inr (v, e, n) \<Rightarrow> parse_sources fs files (flights @ v) (all_errors @ e) n)"

definition main_parse ::
  "filesystem \<Rightarrow> string option \<Rightarrow> string list
     \<Rightarrow> error + (pydict list \<times> error_entry list \<times> int)" where
  "main_parse fs input_file dir_files =
     parse_sources fs ((case input_file of None \<Rightarrow> [] | Some p \<Rightarrow> [p]) @ dir_files) [] [] 1"

section \<open>The query predicate evaluator\<close>

text \<open>\<open>float(x)\<close> on a value; an \<open>int\<close> too large for a double raises \<open>OverflowError\<close>.\<close>

definition float_of_int :: "int \<Rightarrow> error + pyfloat" where
  "float_of_int i =
     (if i = 0 then Inr (Fin 0)
      else case round_pos \<bar>i\<bar> 1 of
             None \<Rightarrow> Inl OverflowError
           | Some v \<Rightarrow> Inr (Fin (if i < 0 then - v else v)))"

fun py_float :: "pyval \<Rightarrow> error + pyfloat" where
  "py_float (VStr s) = py_float_str s"
| "py_float (VInt i) = float_of_int i"
| "py_float (VBool b) = Inr (Fin (if b then 1 else 0))"
| "py_float (VFloat x) = Inr x"
| "py_float VNone = Inl TypeError"

text \<open>
  \<open>a != b\<close> and \<open>a < b\<close> on values.  Numbers (\<open>bool\<close>, \<open>int\<close>, \<open>float\<close>) compare by value with
  one another; two \<open>str\<close> compare as texts; \<open>None\<close> equals only \<open>None\<close>; ordering
  anything else raises \<open>TypeError\<close>.
\<close>

fun as_number :: "pyval \<Rightarrow> pyfloat option" where
  "as_number (VBool b) = Some (Fin (if b then 1 else 0))"
| "as_number (VInt i) = Some (Fin (of_int i))"
| "as_number (VFloat x) = Some x"
| "as_number _ = None"

definition float_eq :: "pyfloat \<Rightarrow> pyfloat \<Rightarrow> bool" where
  "float_eq a b = (a \<noteq> NaN \<and> a = b)"

definition py_ne :: "pyval \<Rightarrow> pyval \<Rightarrow> bool" where
  "py_ne a b =
     (case (as_number a, as_number b) of
        (Some x, Some y) \<Rightarrow> \<not> float_eq x y
      | (None, None) \<Rightarrow> a \<noteq> b
      | _ \<Rightarrow> True)"

definition py_lt :: "pyval \<Rightarrow> pyval \<Rightarrow> error + bool" where
  "py_lt a b =
     (case (a, b) of
        (VStr s, VStr t) \<Rightarrow> Inr (str_lt s t)
      | _ \<Rightarrow> (case (as_number a, as_number b) of
                (Some x, Some y) \<Rightarrow> Inr (float_gt y x)
              | _ \<Rightarrow> Inl TypeError))"

text \<open>\<open>d.get(key)\<close> and \<open>d.get(key, default)\<close>.\<close>

definition dict_get :: "(string \<Rightarrow> pyval option) \<Rightarrow> string \<Rightarrow> pyval \<Rightarrow> pyval" where
  "dict_get d key dflt = (case d key of None \<Rightarrow> dflt | Some v \<Rightarrow> v)"

text \<open>The loop over the three keys that must match exactly.\<close>

fun exact_match ::
  "(string \<Rightarrow> pyval option) \<Rightarrow> (string \<Rightarrow> pyval option) \<Rightarrow> string list \<Rightarrow> bool" where
  "exact_match f q [] = True"
| "exact_match f q (key # keys) =
     (case q key of
        None \<Rightarrow> exact_match f q keys
      | Some v \<Rightarrow> if py_ne (dict_get f key VNone) v then False else exact_match f q keys)"

text \<open>
  \<open>flight_matches_query(f, q)\<close>: the four blocks of the source in order; \<open>Inl\<close> is an
  exception that leaves the function.
\<close>

definition arrival_block ::
  "(string \<Rightarrow> pyval option) \<Rightarrow> (string \<Rightarrow> pyval option) \<Rightarrow> error + bool" where
  "arrival_block f q =
     (case q ''arrival_datetime'' of
        None \<Rightarrow> Inr True
      | Some v \<Rightarrow>
          (case py_lt v (dict_get f ''arrival_datetime'' VNone) of
             Inl e \<Rightarrow> Inl e
           | Inr gt \<Rightarrow> if gt then Inr False else Inr True))"

definition departure_block ::
  "(string \<Rightarrow> pyval option) \<Rightarrow> (string \<Rightarrow> pyval option) \<Rightarrow> error + bool" where
  "departure_block f q =
     (case q ''departure_datetime'' of
        None \<Rightarrow> arrival_block f q
      | Some v \<Rightarrow>
          (case py_lt (dict_get f ''departure_datetime'' VNone) v of
             Inl e \<Rightarrow> Inl e
           | Inr lt \<Rightarrow> if lt then Inr False else arrival_block f q))"

definition price_block ::
  "(string \<Rightarrow> pyval option) \<Rightarrow> (string \<Rightarrow> pyval option) \<Rightarrow> error + bool" where
  "price_block f q =
     (case q ''price'' of
        None \<Rightarrow> departure_block f q
      | Some v \<Rightarrow>
          (case py_float v of
             Inl e \<Rightarrow> Inr False
           | Inr qprice \<Rightarrow>
               (case py_float (dict_get f ''price'' (VStr ''0'')) of
                  Inl e \<Rightarrow> Inr False
                | Inr fprice \<Rightarrow>
                    if float_gt fprice qprice then Inr False
                    else departure_block f q)))"

definition flight_matches_query ::
  "(string \<Rightarrow> pyval option) \<Rightarrow> (string \<Rightarrow> pyval option) \<Rightarrow> error + bool" where
  "flight_matches_query f q =
     (if \<not> exact_match f q [''flight_id'', ''origin'', ''destination''] then Inr False
      else price_block f q)"

text \<open>
  Two tests of the evaluator, named for the statements about it: the price filter lets
  the record through (no \<open>price\<close> in the query, or both \<open>float\<close> calls succeed and the
  record's price is not greater), and the departure filter rejects the record.
\<close>

definition price_filter_passes ::
  "(string \<Rightarrow> pyval option) \<Rightarrow> (string \<Rightarrow> pyval option) \<Rightarrow> bool" where
  "price_filter_passes f q =
     (case q ''price'' of
        None \<Rightarrow> True
      | Some v \<Rightarrow>
          (case (py_float v, py_float (dict_get f ''price'' (VStr ''0''))) of
             (Inr qprice, Inr fprice) \<Rightarrow> \<not> float_gt fprice qprice
           | _ \<Rightarrow> False))"

definition departure_filter_fails ::
  "(string \<Rightarrow> pyval option) \<Rightarrow> (string \<Rightarrow> pyval option) \<Rightarrow> bool" where
  "departure_filter_fails f q =
     (case q ''departure_datetime'' of
        None \<Rightarrow> False
      | Some v \<Rightarrow> py_lt (dict_get f ''departure_datetime'' VNone) v = Inr True)"

section \<open>The line parser, as specified\<close>

text \<open>
  The classification of one physical line in the words of the specification: blank,
  comment, wrong number of fields, rejected by the validator with its violations, or a
  valid record; then the record and the error entry that the line contributes.
\<close>

datatype line_class = Blank | Comment | WrongFieldCount | Invalid "string list" | Valid pydict

definition classify_line :: "string \<Rightarrow> line_class" where
  "classify_line raw =
     (let line = rstrip_newline raw;
          fields = map strip (split_on CHR '','' line)
      in if strip line = [] then Blank
         else if startswith_hash (strip line) then Comment
         else if length fields \<noteq> 6 then WrongFieldCount
         else case validate_record fields of
                Inl e \<Rightarrow> WrongFieldCount
              | Inr violations \<Rightarrow>
                  if violations = [] then Valid (make_flight fields)
                  else Invalid violations)"

definition line_records :: "string \<Rightarrow> pydict list" where
  "line_records raw = (case classify_line raw of Valid r \<Rightarrow> [r] | _ \<Rightarrow> [])"

definition line_errors :: "int \<Rightarrow> string \<Rightarrow> error_entry list" where
  "line_errors n raw =
     (case classify_line raw of
        Blank \<Rightarrow> []
      | Comment \<Rightarrow> [(n, rstrip_newline raw, ''Comment'')]
      | WrongFieldCount \<Rightarrow> [(n, rstrip_newline raw, ''Invalid number of fields'')]
      | Invalid violations \<Rightarrow> [(n, rstrip_newline raw, join '', '' violations)]
      | Valid r \<Rightarrow> [])"

fun numbered :: "int \<Rightarrow> 'a list \<Rightarrow> (int \<times> 'a) list" where
  "numbered n [] = []"
| "numbered n (x # xs) = (n, x) # numbered (n + 1) xs"

section \<open>The date-time format, as specified\<close>





















section \<open>Evaluation\<close>

text \<open>The definitions that the simplifier unfolds to run the model on a concrete input.\<close>

lemmas char_eval = code_def newline_def py_isspace_def is_digit_def in_range_def
  is_upper_def is_alnum_def float_ws_def lower_def digit_val_def

lemmas string_eval = rstrip_chars_def strip_def rstrip_newline_def startswith_hash_def

lemmas regex_eval = re_match_def flight_id_re_def airport_re_def digit_def strptime_re_def
  year_re_def month_re_def day_re_def hour_re_def minute_re_def

lemmas datetime_eval = strptime_def group_def int_of_group_def dt_lt_def dt_key_def
  days_in_month_def is_leap_def

lemmas float_eval = py_float_str_def take_sign_def parse_decimal_def nat_of_digits_def
  round_double_def round_pos_def binade_def round_half_even_div_def pow2_def bitlen.simps

lemmas eval = char_eval string_eval regex_eval datetime_eval float_eval Let_def

section \<open>The line parser and the batch\<close>

lemma validate_record_six:
  "length parts = 6 \<Longrightarrow> \<exists>issues. validate_record parts = Inr issues"
proof -
  assume "length parts = 6"
  then obtain a b c d e f where "parts = [a, b, c, d, e, f]"
    by (auto simp: length_Suc_conv eval_nat_numeral)
  then show ?thesis by (simp add: Let_def)
qed

lemma parse_lines_closed:
  "parse_lines raws valid errors n =
     Inr (valid @ concat (map line_records raws),
          errors @ concat (map (\<lambda>(i, raw). line_errors i raw) (numbered n raws)),
          n + int (length raws))"
proof (induction raws arbitrary: valid errors n)
  case Nil
  show ?case by simp
next
  case (Cons raw raws)
  show ?case
  proof (cases "length (map strip (split_on CHR '','' (rstrip_newline raw))) = 6")
    case True
    then obtain issues where "validate_record (map strip (split_on CHR '','' (rstrip_newline raw))) = Inr issues"
      using validate_record_six by blast
    with True show ?thesis
      by (simp add: Cons.IH Let_def line_records_def line_errors_def classify_line_def)
  next
    case False
    then show ?thesis
      by (simp add: Cons.IH Let_def line_records_def line_errors_def classify_line_def)
  qed
qed

lemma line_errors_fst: "x \<in> set (line_errors i raw) \<Longrightarrow> fst x = i"
  by (auto simp: line_errors_def split: line_class.splits)

lemma line_errors_sorted: "sorted_wrt (<) (map fst (line_errors i raw))"
  by (simp add: line_errors_def split: line_class.splits)

lemma numbered_errors_bounds:
  "x \<in> set (concat (map (\<lambda>(i, raw). line_errors i raw) (numbered n raws)))
     \<Longrightarrow> n \<le> fst x \<and> fst x < n + int (length raws)"
proof (induction raws arbitrary: n)
  case Nil
  then show ?case by simp
next
  case (Cons raw raws)
  from Cons.prems consider
      "x \<in> set (line_errors n raw)"
    | "x \<in> set (concat (map (\<lambda>(i, raw). line_errors i raw) (numbered (n + 1) raws)))"
    by auto
  then show ?case
  proof cases
    case 1
    then show ?thesis using line_errors_fst by fastforce
  next
    case 2
    from Cons.IH [OF 2] show ?thesis by simp
  qed
qed

lemma numbered_errors_sorted:
  "sorted_wrt (<) (map fst (concat (map (\<lambda>(i, raw). line_errors i raw) (numbered n raws))))"
proof (induction raws arbitrary: n)
  case Nil
  show ?case by simp
next
  case (Cons raw raws)
  have "\<forall>x\<in>set (line_errors n raw). \<forall>y\<in>set (concat (map (\<lambda>(i, raw). line_errors i raw)
          (numbered (n + 1) raws))). fst x < fst y"
    using line_errors_fst numbered_errors_bounds by fastforce
  then show ?case
    using Cons.IH [of "n + 1"] line_errors_sorted [of n raw]
    by (simp add: sorted_wrt_append)
qed

lemma parse_csv_file_lines:
  assumes "parse_csv_file fs path n = Inr (v, e, m)"
  shows "sorted_wrt (<) (map fst e) \<and> (\<forall>x\<in>set e. n \<le> fst x \<and> fst x < m) \<and> n \<le> m"
proof -
  from assms obtain raws where raws: "fs path = Some raws"
    by (auto simp: parse_csv_file_def split: option.splits)
  with assms have e: "e = concat (map (\<lambda>(i, raw). line_errors i raw) (numbered n raws))"
    and m: "m = n + int (length raws)"
    by (simp_all add: parse_csv_file_def parse_lines_closed)
  show ?thesis
    unfolding e m using numbered_errors_sorted numbered_errors_bounds by auto
qed

lemma parse_sources_lines:
  assumes "parse_sources fs files flights errs n = Inr (fl, es, m)"
    and "sorted_wrt (<) (map fst errs)"
    and "\<forall>x\<in>set errs. lo \<le> fst x \<and> fst x < n"
    and "lo \<le> n"
  shows "sorted_wrt (<) (map fst es) \<and> (\<forall>x\<in>set es. lo \<le> fst x \<and> fst x < m) \<and> n \<le> m"
  using assms
proof (induction files arbitrary: flights errs n)
  case Nil
  then show ?case by auto
next
  case (Cons fpath files)
  from Cons.prems(1) obtain v e k where
    one: "parse_csv_file fs fpath n = Inr (v, e, k)" and
    rest: "parse_sources fs files (flights @ v) (errs @ e) k = Inr (fl, es, m)"
    by (auto split: sum.splits)
  from parse_csv_file_lines [OF one] have
    e: "sorted_wrt (<) (map fst e)" "\<forall>x\<in>set e. n \<le> fst x \<and> fst x < k" "n \<le> k"
    by auto
  have s: "sorted_wrt (<) (map fst (errs @ e))"
    using Cons.prems(2,3) e by (fastforce simp: sorted_wrt_append)
  have b: "\<forall>x\<in>set (errs @ e). lo \<le> fst x \<and> fst x < k"
  proof
    fix x assume "x \<in> set (errs @ e)"
    then consider "x \<in> set errs" | "x \<in> set e" by auto
    then show "lo \<le> fst x \<and> fst x < k"
    proof cases
      case 1 then show ?thesis using Cons.prems(3) e(3) by fastforce
    next
      case 2
      then show ?thesis using e(2) Cons.prems(4) by fastforce
    qed
  qed
  have "lo \<le> k" using Cons.prems(4) e(3) by simp
  from Cons.IH [OF rest s b this] e(3) show ?case by auto
qed

text \<open>
  Claim C3.  \<open>parse_csv_file\<close> treats every physical line according to its class: a blank
  line gives nothing, a comment line the entry \<open>Comment\<close>, a line without six trimmed
  fields the entry \<open>Invalid number of fields\<close>, a line the validator rejects the entry
  with its violations joined by a comma and a space, and a valid line a flight record;
  the line counter grows by one for each line, whatever its class.
\<close>

theorem parse_csv_file_classifies:
  "parse_csv_file fs path n =
     (case fs path of
        None \<Rightarrow> Inl FileNotFoundError
      | Some raws \<Rightarrow>
          Inr (concat (map line_records raws),
               concat (map (\<lambda>(i, raw). line_errors i raw) (numbered n raws)),
               n + int (length raws)))"
  by (simp add: parse_csv_file_def parse_lines_closed split: option.splits)

theorem parse_csv_file_classifies_witness:
  "parse_csv_file
     (\<lambda>p. if p = ''a.csv''
          then Some [''#old'' @ [newline],
                     [CHR '' '', CHR 0x09, CHR '' '', newline],
                     '' AB12 , JFK,LAX ,2025-12-01 09:00 ,  2025-12-01 12:00,199.99 ''
                       @ [newline],
                     ''  # kept'' @ [newline],
                     ''A!,jkf,LAX,2025-12-01 09:00,2025-12-01 12:00,199.99'' @ [newline],
                     ''AB12,JFK'']
          else None) ''a.csv'' 1
   = Inr ([[(''flight_id'', VStr ''AB12''), (''origin'', VStr ''JFK''),
            (''destination'', VStr ''LAX''),
            (''departure_datetime'', VStr ''2025-12-01 09:00''),
            (''arrival_datetime'', VStr ''2025-12-01 12:00''),
            (''price'', VStr ''199.99'')]],
          [(1, ''#old'', ''Comment''),
           (4, ''  # kept'', ''Comment''),
           (5, ''A!,jkf,LAX,2025-12-01 09:00,2025-12-01 12:00,199.99'',
            ''Invalid flight_id, Invalid origin''),
           (6, ''AB12,JFK'', ''Invalid number of fields'')],
          7)"
  by (simp add: parse_csv_file_classifies line_records_def line_errors_def classify_line_def
      make_flight_def eval)

text \<open>
  Claim C4.  The error entries of one call of \<open>parse_csv_file\<close> from line number \<open>n\<close> carry
  strictly increasing line numbers between \<open>n\<close> and the returned next line number minus
  one; and the entries of a whole batch, whose sources are parsed one after the other
  with the line number threaded through, carry distinct, strictly increasing line
  numbers, starting at 1.
\<close>

theorem error_line_numbers_increase:
  "(parse_csv_file fs path n = Inr (v, e, m) \<longrightarrow>
      (\<forall>x\<in>set e. n \<le> fst x \<and> fst x \<le> m - 1) \<and> sorted_wrt (<) (map fst e))
   \<and> (main_parse fs input_file dir_files = Inr (flights, all_errors, next_ln) \<longrightarrow>
      sorted_wrt (<) (map fst all_errors) \<and> distinct (map fst all_errors)
      \<and> (\<forall>x\<in>set all_errors. 1 \<le> fst x \<and> fst x < next_ln))"
proof (intro conjI impI)
  assume a: "parse_csv_file fs path n = Inr (v, e, m)"
  from parse_csv_file_lines [OF a] show "\<forall>x\<in>set e. n \<le> fst x \<and> fst x \<le> m - 1"
    by auto
  from parse_csv_file_lines [OF a] show "sorted_wrt (<) (map fst e)"
    by simp
next
  assume "main_parse fs input_file dir_files = Inr (flights, all_errors, next_ln)"
  then have "parse_sources fs ((case input_file of None \<Rightarrow> [] | Some p \<Rightarrow> [p]) @ dir_files)
               [] [] 1 = Inr (flights, all_errors, next_ln)"
    by (simp add: main_parse_def)
  from parse_sources_lines [OF this, of 1]
  have r: "sorted_wrt (<) (map fst all_errors)"
    "\<forall>x\<in>set all_errors. 1 \<le> fst x \<and> fst x < next_ln"
    by auto
  show "sorted_wrt (<) (map fst all_errors)" by (rule r(1))
  show "distinct (map fst all_errors)" using r(1) strict_sorted_iff by blast
  show "\<forall>x\<in>set all_errors. 1 \<le> fst x \<and> fst x < next_ln" by (rule r(2))
qed

theorem error_line_numbers_increase_witness:
  "parse_csv_file (\<lambda>p. if p = ''a.csv'' then Some [''#c'' @ [newline], ''x'' @ [newline]]
                       else if p = ''b.csv'' then Some [''#d'' @ [newline]] else None)
     ''b.csv'' 3 = Inr ([], [(3, ''#d'', ''Comment'')], 4)
   \<and> main_parse (\<lambda>p. if p = ''a.csv'' then Some [''#c'' @ [newline], ''x'' @ [newline]]
                       else if p = ''b.csv'' then Some [''#d'' @ [newline]] else None)
     (Some ''a.csv'') [''b.csv'']
     = Inr ([], [(1, ''#c'', ''Comment''), (2, ''x'', ''Invalid number of fields''),
                 (3, ''#d'', ''Comment'')], 4)
   \<and> sorted_wrt (<) (map fst [(1, ''#c'', ''Comment''), (2, ''x'', ''Invalid number of fields''),
                 (3::int, ''#d'', ''Comment'')])"
proof -
  let ?fs = "\<lambda>p. if p = ''a.csv'' then Some [''#c'' @ [newline], ''x'' @ [newline]]
                  else if p = ''b.csv'' then Some [''#d'' @ [newline]] else None"
  have one: "parse_csv_file ?fs ''b.csv'' 3 = Inr ([], [(3, ''#d'', ''Comment'')], 4)"
    by (simp add: parse_csv_file_def eval)
  have all: "main_parse ?fs (Some ''a.csv'') [''b.csv'']
     = Inr ([], [(1, ''#c'', ''Comment''), (2, ''x'', ''Invalid number of fields''),
                 (3, ''#d'', ''Comment'')], 4)"
    by (simp add: main_parse_def parse_csv_file_def eval)
  from error_line_numbers_increase [of ?fs "''b.csv''" 3 "[]" "[(3, ''#d'', ''Comment'')]" 4
      "Some ''a.csv''" "[''b.csv'']" "[]" _ 4] one all
  show ?thesis by simp
qed

section \<open>The validator\<close>

text \<open>
  Claim C1.  On six fields \<open>validate_record\<close> returns the reasons of the failed checks in
  the order flight_id, origin, destination, departure_datetime, arrival_datetime,
  chronology, price, each check contributing independently of the others; and
  \<open>Arrival not after departure\<close> is among them exactly when both date-times parse and
  the arrival is not strictly later than the departure, hence never when one of them
  failed to parse.
\<close>

theorem validate_record_order:
  "validate_record [flight_id, origin, destination, dep_dt, arr_dt, price] =
     Inr ((if re_match flight_id_re flight_id = None then [''Invalid flight_id''] else []) @
          (if re_match airport_re origin = None then [''Invalid origin''] else []) @
          (if re_match airport_re destination = None then [''Invalid destination''] else []) @
          (if strptime dep_dt = None then [''Invalid departure_datetime''] else []) @
          (if strptime arr_dt = None then [''Invalid arrival_datetime''] else []) @
          (if \<exists>d a. strptime dep_dt = Some d \<and> strptime arr_dt = Some a \<and> \<not> dt_lt d a
           then [''Arrival not after departure''] else []) @
          (if \<exists>x. py_float_str price = Inr x \<and> float_gt x (Fin 0)
           then [] else [''Invalid price'']))
   \<and> (\<forall>errs. validate_record [flight_id, origin, destination, dep_dt, arr_dt, price] = Inr errs
        \<longrightarrow> (''Arrival not after departure'' \<in> set errs
        \<longleftrightarrow> (\<exists>d a. strptime dep_dt = Some d \<and> strptime arr_dt = Some a \<and> \<not> dt_lt d a)))"
  by (cases "strptime dep_dt"; cases "strptime arr_dt"; cases "py_float_str price")
     (simp_all add: Let_def)

theorem validate_record_order_witness:
  "validate_record [''CD34'', ''SFO'', ''LAX'', ''2025-12-01 09:00'', ''2025-12-01 08:00'', ''100'']
     = Inr [''Arrival not after departure'']
   \<and> (\<exists>d a. strptime ''2025-12-01 09:00'' = Some d \<and> strptime ''2025-12-01 08:00'' = Some a
          \<and> \<not> dt_lt d a)"
  using validate_record_order [of "''CD34''" "''SFO''" "''LAX''" "''2025-12-01 09:00''"
      "''2025-12-01 08:00''" "''100''"]
  by (simp add: eval)

section \<open>The query evaluator\<close>

lemmas query_eval = flight_matches_query_def price_block_def departure_block_def
  arrival_block_def dict_get_def py_ne_def py_lt_def float_eq_def float_of_int_def make_flight_def

lemma float_zero: "py_float_str ''0'' = Inr (Fin 0)"
  by (simp add: eval)

lemma float_nan: "py_float_str ''nan'' = Inr NaN"
  by (simp add: eval)

lemma py_lt_None_left: "py_lt VNone v = Inl TypeError"
  by (cases v) (simp_all add: py_lt_def)

lemma py_lt_None_right: "py_lt v VNone = Inl TypeError"
  by (cases v) (simp_all add: py_lt_def)

lemma py_lt_str: "py_lt (VStr s) (VStr t) = Inr (str_lt s t)"
  by (simp add: py_lt_def)







lemma arrival_block_strings:
  assumes "f ''arrival_datetime'' = Some (VStr s)"
    and "\<forall>v. q ''arrival_datetime'' = Some v \<longrightarrow> (\<exists>t. v = VStr t)"
  shows "arrival_block f q = Inr True \<or> arrival_block f q = Inr False"
  using assms by (auto simp: arrival_block_def dict_get_def py_lt_str split: option.splits)

lemma departure_block_strings:
  assumes "f ''departure_datetime'' = Some (VStr s)"
    and "\<forall>v. q ''departure_datetime'' = Some v \<longrightarrow> (\<exists>t. v = VStr t)"
    and "arrival_block f q = Inr True \<or> arrival_block f q = Inr False"
  shows "departure_block f q = Inr True \<or> departure_block f q = Inr False"
  using assms
  by (auto simp: departure_block_def dict_get_def py_lt_str split: option.splits if_splits)

lemma price_block_total:
  assumes "departure_block f q = Inr True \<or> departure_block f q = Inr False"
  shows "price_block f q = Inr True \<or> price_block f q = Inr False"
  using assms by (auto simp: price_block_def split: option.splits sum.splits)

lemma arrival_block_missing:
  "f ''arrival_datetime'' = None \<Longrightarrow> q ''arrival_datetime'' = Some v
     \<Longrightarrow> arrival_block f q = Inl TypeError"
  by (simp add: arrival_block_def dict_get_def py_lt_None_right)

lemma departure_block_missing:
  "f ''departure_datetime'' = None \<Longrightarrow> q ''departure_datetime'' = Some v
     \<Longrightarrow> departure_block f q = Inl TypeError"
  by (simp add: departure_block_def dict_get_def py_lt_None_left)

lemma departure_block_arrival_missing:
  "f ''arrival_datetime'' = None \<Longrightarrow> q ''arrival_datetime'' = Some v
     \<Longrightarrow> departure_block f q \<noteq> Inr True"
  by (auto simp: departure_block_def arrival_block_missing split: option.splits sum.splits)

lemma price_block_not_True:
  "departure_block f q \<noteq> Inr True \<Longrightarrow> price_block f q \<noteq> Inr True"
  by (auto simp: price_block_def split: option.splits sum.splits)

text \<open>
  Claim C2, at the input where the code leaves it.  The claim has the price predicate
  hold exactly when the record's price is at most the query's, and the evaluator
  answer false for a query price that is not a real number.  The query price \<open>"nan"\<close>
  is accepted by \<open>float\<close>; the source tests \<open>float(f.price) > qprice\<close>, which is false for
  a NaN, so the valid record below matches although its price is not at most the
  query's.
\<close>

theorem nan_query_price_matches:
  "validate_record [''AB12'', ''JFK'', ''LAX'', ''2025-12-01 09:00'', ''2025-12-01 12:00'', ''199.99'']
     = Inr []
   \<and> py_float (VStr ''nan'') = Inr NaN
   \<and> flight_matches_query
        (map_of (make_flight [''AB12'', ''JFK'', ''LAX'', ''2025-12-01 09:00'',
                              ''2025-12-01 12:00'', ''199.99'']))
        (map_of [(''price'', VStr ''nan'')]) = Inr True"
  by (simp add: eval query_eval)

text \<open>
  Claim C9 as stated fails twice.  A record without \<open>departure_datetime\<close> and a query
  with that key and a different \<open>origin\<close> give the decision \<open>False\<close>, not an error: the
  exact matches are tested first.  And a record with all six fields as strings raises
  \<open>TypeError\<close> on a query whose \<open>departure_datetime\<close> is a number.
\<close>

theorem missing_field_counterexample:
  "flight_matches_query (map_of [(''origin'', VStr ''LAX'')])
     (map_of [(''origin'', VStr ''JFK''), (''departure_datetime'', VStr ''2025-10-01 00:00'')])
     = Inr False
   \<and> flight_matches_query
        (map_of (make_flight [''AB12'', ''JFK'', ''LAX'', ''2025-12-01 09:00'',
                              ''2025-12-01 12:00'', ''199.99'']))
        (map_of [(''departure_datetime'', VInt 20251201)]) = Inl TypeError"
  by (simp add: query_eval)

lemma py_lt_error: "py_lt a b = Inl e \<Longrightarrow> e = TypeError"
  by (auto simp: py_lt_def split: pyval.splits option.splits)

lemma price_block_passes:
  "price_block f q = (if price_filter_passes f q then departure_block f q else Inr False)"
  by (auto simp: price_block_def price_filter_passes_def split: option.splits sum.splits)

lemma departure_block_arrival_missing_eq:
  assumes "f ''arrival_datetime'' = None" and "q ''arrival_datetime'' = Some v"
  shows "departure_block f q = (if departure_filter_fails f q then Inr False else Inl TypeError)"
  using assms py_lt_error
  by (auto simp: departure_block_def departure_filter_fails_def arrival_block_missing
      split: option.splits sum.splits)

lemmas filter_eval = price_filter_passes_def departure_filter_fails_def

text \<open>
  Claim C9, amended.  \<open>flight_matches_query\<close> returns a boolean whenever the record holds
  all six fields as strings and the query's \<open>departure_datetime\<close> and \<open>arrival_datetime\<close>,
  where present, are strings.  For a record without \<open>departure_datetime\<close> and a query
  with that key, it raises \<open>TypeError\<close> exactly when the tests before the comparison
  pass (the three exact matches and the price filter), and returns \<open>False\<close> exactly
  when one of them fails.  For a record without \<open>arrival_datetime\<close> and a query with
  that key it is the same, the departure filter being one more test before the
  comparison.  It never returns \<open>True\<close> in either case.
\<close>

theorem flight_matches_query_outcomes:
  "((\<forall>k\<in>{''flight_id'', ''origin'', ''destination'', ''departure_datetime'',
           ''arrival_datetime'', ''price''}. \<exists>s. f k = Some (VStr s))
     \<and> (\<forall>k\<in>{''departure_datetime'', ''arrival_datetime''}.
           \<forall>v. q k = Some v \<longrightarrow> (\<exists>t. v = VStr t))
     \<longrightarrow> (\<exists>b. flight_matches_query f q = Inr b))
   \<and> (f ''departure_datetime'' = None \<and> q ''departure_datetime'' = Some v
     \<longrightarrow> flight_matches_query f q =
           (if exact_match f q [''flight_id'', ''origin'', ''destination'']
               \<and> price_filter_passes f q
            then Inl TypeError else Inr False))
   \<and> (f ''arrival_datetime'' = None \<and> q ''arrival_datetime'' = Some v
     \<longrightarrow> flight_matches_query f q =
           (if exact_match f q [''flight_id'', ''origin'', ''destination'']
               \<and> price_filter_passes f q \<and> \<not> departure_filter_fails f q
            then Inl TypeError else Inr False))"
proof (intro conjI impI)
  assume a: "(\<forall>k\<in>{''flight_id'', ''origin'', ''destination'', ''departure_datetime'',
           ''arrival_datetime'', ''price''}. \<exists>s. f k = Some (VStr s))
     \<and> (\<forall>k\<in>{''departure_datetime'', ''arrival_datetime''}.
           \<forall>v. q k = Some v \<longrightarrow> (\<exists>t. v = VStr t))"
  then obtain s1 s2 where f: "f ''departure_datetime'' = Some (VStr s1)"
      "f ''arrival_datetime'' = Some (VStr s2)"
    by auto
  from a have q: "\<forall>v. q ''departure_datetime'' = Some v \<longrightarrow> (\<exists>t. v = VStr t)"
      "\<forall>v. q ''arrival_datetime'' = Some v \<longrightarrow> (\<exists>t. v = VStr t)"
    by auto
  have "price_block f q = Inr True \<or> price_block f q = Inr False"
    using arrival_block_strings [of f s2 q] departure_block_strings [of f s1 q]
      price_block_total [of f q] f q by blast
  then show "\<exists>b. flight_matches_query f q = Inr b"
    by (auto simp: flight_matches_query_def)
next
  assume "f ''departure_datetime'' = None \<and> q ''departure_datetime'' = Some v"
  then have "departure_block f q = Inl TypeError"
    by (simp add: departure_block_missing)
  then show "flight_matches_query f q =
           (if exact_match f q [''flight_id'', ''origin'', ''destination'']
               \<and> price_filter_passes f q
            then Inl TypeError else Inr False)"
    by (simp add: flight_matches_query_def price_block_passes)
next
  assume "f ''arrival_datetime'' = None \<and> q ''arrival_datetime'' = Some v"
  then have "departure_block f q
             = (if departure_filter_fails f q then Inr False else Inl TypeError)"
    by (simp add: departure_block_arrival_missing_eq)
  then show "flight_matches_query f q =
           (if exact_match f q [''flight_id'', ''origin'', ''destination'']
               \<and> price_filter_passes f q \<and> \<not> departure_filter_fails f q
            then Inl TypeError else Inr False)"
    by (simp add: flight_matches_query_def price_block_passes)
qed

theorem flight_matches_query_outcomes_witness:
  "(\<exists>b. flight_matches_query
          (map_of [(''flight_id'', VStr ''AB12''), (''origin'', VStr ''JFK''),
                   (''destination'', VStr ''LAX''),
                   (''departure_datetime'', VStr ''2025-12-01 09:00''),
                   (''arrival_datetime'', VStr ''2025-12-01 12:00''),
                   (''price'', VStr ''199.99'')])
          (map_of [(''departure_datetime'', VStr ''2025-11-01 00:00'')]) = Inr b)
   \<and> flight_matches_query (map_of [(''origin'', VStr ''LAX'')])
        (map_of [(''price'', VInt 200), (''departure_datetime'', VStr ''2025-10-01 00:00'')])
        = Inl TypeError
   \<and> flight_matches_query (map_of [(''origin'', VStr ''LAX'')])
        (map_of [(''price'', VStr ''abc''), (''departure_datetime'', VStr ''2025-10-01 00:00'')])
        = Inr False
   \<and> flight_matches_query
        (map_of [(''origin'', VStr ''LAX''), (''departure_datetime'', VStr ''2025-12-01 09:00'')])
        (map_of [(''departure_datetime'', VStr ''2025-10-01 00:00''),
                 (''arrival_datetime'', VStr ''2025-10-01 00:00'')])
        = Inl TypeError
   \<and> flight_matches_query
        (map_of [(''origin'', VStr ''LAX''), (''departure_datetime'', VStr ''2025-09-01 09:00'')])
        (map_of [(''departure_datetime'', VStr ''2025-10-01 00:00''),
                 (''arrival_datetime'', VStr ''2025-10-01 00:00'')])
        = Inr False"
proof -
  have 1: "\<exists>b. flight_matches_query
          (map_of [(''flight_id'', VStr ''AB12''), (''origin'', VStr ''JFK''),
                   (''destination'', VStr ''LAX''),
                   (''departure_datetime'', VStr ''2025-12-01 09:00''),
                   (''arrival_datetime'', VStr ''2025-12-01 12:00''),
                   (''price'', VStr ''199.99'')])
          (map_of [(''departure_datetime'', VStr ''2025-11-01 00:00'')]) = Inr b"
    using flight_matches_query_outcomes
      [of "map_of [(''flight_id'', VStr ''AB12''), (''origin'', VStr ''JFK''),
                   (''destination'', VStr ''LAX''),
                   (''departure_datetime'', VStr ''2025-12-01 09:00''),
                   (''arrival_datetime'', VStr ''2025-12-01 12:00''),
                   (''price'', VStr ''199.99'')]"
          "map_of [(''departure_datetime'', VStr ''2025-11-01 00:00'')]"]
    by simp
  have 2: "flight_matches_query (map_of [(''origin'', VStr ''LAX'')])
        (map_of [(''price'', VInt 200), (''departure_datetime'', VStr ''2025-10-01 00:00'')])
        = Inl TypeError"
    using flight_matches_query_outcomes
      [of "map_of [(''origin'', VStr ''LAX'')]"
          "map_of [(''price'', VInt 200), (''departure_datetime'', VStr ''2025-10-01 00:00'')]"
          "VStr ''2025-10-01 00:00''"]
    by (simp add: filter_eval dict_get_def float_of_int_def float_zero eval)
  have 3: "flight_matches_query (map_of [(''origin'', VStr ''LAX'')])
        (map_of [(''price'', VStr ''abc''), (''departure_datetime'', VStr ''2025-10-01 00:00'')])
        = Inr False"
    using flight_matches_query_outcomes
      [of "map_of [(''origin'', VStr ''LAX'')]"
          "map_of [(''price'', VStr ''abc''), (''departure_datetime'', VStr ''2025-10-01 00:00'')]"
          "VStr ''2025-10-01 00:00''"]
    by (simp add: filter_eval dict_get_def eval)
  have 4: "flight_matches_query
        (map_of [(''origin'', VStr ''LAX''), (''departure_datetime'', VStr ''2025-12-01 09:00'')])
        (map_of [(''departure_datetime'', VStr ''2025-10-01 00:00''),
                 (''arrival_datetime'', VStr ''2025-10-01 00:00'')])
        = Inl TypeError"
    using flight_matches_query_outcomes
      [of "map_of [(''origin'', VStr ''LAX''), (''departure_datetime'', VStr ''2025-12-01 09:00'')]"
          "map_of [(''departure_datetime'', VStr ''2025-10-01 00:00''),
                   (''arrival_datetime'', VStr ''2025-10-01 00:00'')]"
          "VStr ''2025-10-01 00:00''"]
    by (simp add: filter_eval dict_get_def py_lt_def code_def)
  have 5: "flight_matches_query
        (map_of [(''origin'', VStr ''LAX''), (''departure_datetime'', VStr ''2025-09-01 09:00'')])
        (map_of [(''departure_datetime'', VStr ''2025-10-01 00:00''),
                 (''arrival_datetime'', VStr ''2025-10-01 00:00'')])
        = Inr False"
    using flight_matches_query_outcomes
      [of "map_of [(''origin'', VStr ''LAX''), (''departure_datetime'', VStr ''2025-09-01 09:00'')]"
          "map_of [(''departure_datetime'', VStr ''2025-10-01 00:00''),
                   (''arrival_datetime'', VStr ''2025-10-01 00:00'')]"
          "VStr ''2025-10-01 00:00''"]
    by (simp add: filter_eval dict_get_def py_lt_def code_def)
  from 1 2 3 4 5 show ?thesis by blast
qed




section \<open>What the validator accepts\<close>

text \<open>
  Claim C7, at the input where the code leaves it.  The claim has \<open>flight_id\<close>, \<open>origin\<close>
  and \<open>destination\<close> accepted only as full-string matches, nothing trailing.  The source
  anchors its patterns with \<open>$\<close>, which in \<open>re\<close> also matches just before a newline that
  ends the text, so \<open>validate_record\<close> reports nothing for fields with a trailing newline.
\<close>

theorem trailing_newline_accepted:
  "re_match flight_id_re (''AB12'' @ [newline]) \<noteq> None
   \<and> re_match airport_re (''JFK'' @ [newline]) \<noteq> None
   \<and> validate_record [''AB12'' @ [newline], ''JFK'' @ [newline], ''LAX'' @ [newline],
        ''2025-12-01 09:00'', ''2025-12-01 12:00'', ''199.99''] = Inr []"
  by (simp add: eval)

text \<open>
  Claim C6, at the input where the code leaves it.  The claim has the comparison of
  the texts agree with the comparison of the points in time for all date-times the
  validator accepts.  The validator accepts \<open>2025-9-01 09:00\<close>; as a text it is not below
  \<open>2025-10-01 00:00\<close>, as a point in time it is, so the record below passes the filter
  \<open>departure_datetime \<ge> 2025-10-01 00:00\<close> although it departs a month earlier.
\<close>

theorem unpadded_dates_compare_wrongly:
  "validate_record [''AB12'', ''JFK'', ''LAX'', ''2025-9-01 09:00'', ''2025-9-01 12:00'', ''199.99'']
     = Inr []
   \<and> strptime ''2025-9-01 09:00''
       = Some \<lparr>year = 2025, month = 9, day = 1, hour = 9, minute = 0\<rparr>
   \<and> strptime ''2025-10-01 00:00''
       = Some \<lparr>year = 2025, month = 10, day = 1, hour = 0, minute = 0\<rparr>
   \<and> dt_lt \<lparr>year = 2025, month = 9, day = 1, hour = 9, minute = 0\<rparr>
           \<lparr>year = 2025, month = 10, day = 1, hour = 0, minute = 0\<rparr>
   \<and> \<not> str_lt ''2025-9-01 09:00'' ''2025-10-01 00:00''
   \<and> flight_matches_query
        (map_of (make_flight [''AB12'', ''JFK'', ''LAX'', ''2025-9-01 09:00'',
                              ''2025-9-01 12:00'', ''199.99'']))
        (map_of [(''departure_datetime'', VStr ''2025-10-01 00:00'')]) = Inr True"
  by (simp add: eval query_eval)

section \<open>The date-time format\<close>


lemma le_length_takeWhile:
  "j \<le> length (takeWhile P s) \<longleftrightarrow> j \<le> length s \<and> list_all P (take j s)"
proof (induction s arbitrary: j)
  case Nil
  show ?case by simp
next
  case (Cons x xs)
  show ?case by (cases j) (auto simp: Cons.IH)
qed

lemma re_match_None: "re_match r s = None \<longleftrightarrow> rmatch r (0, s, []) = []"
  by (simp add: re_match_def split: list.splits)

lemma rep_then_eol:
  "rmatch (Seq (Rep P lo (Some hi)) Eol) (i, s, g) \<noteq> [] \<longleftrightarrow>
     (\<exists>j. lo \<le> j \<and> j \<le> hi \<and> j \<le> length (takeWhile P s)
          \<and> (drop j s = [] \<or> drop j s = [newline]))"
proof -
  let ?k = "min hi (length (takeWhile P s))"
  have "rmatch (Seq (Rep P lo (Some hi)) Eol) (i, s, g)
        = concat (map (\<lambda>j. rmatch Eol (i + j, drop j s, g)) (rev [lo..<Suc ?k]))"
    by (simp add: Let_def comp_def del: upt_Suc rmatch.simps(8))
  then have "rmatch (Seq (Rep P lo (Some hi)) Eol) (i, s, g) \<noteq> [] \<longleftrightarrow>
        (\<exists>j\<in>{lo..<Suc ?k}. rmatch Eol (i + j, drop j s, g) \<noteq> [])"
    by (simp del: upt_Suc rmatch.simps(8))
  also have "\<dots> \<longleftrightarrow> (\<exists>j. lo \<le> j \<and> j \<le> hi \<and> j \<le> length (takeWhile P s)
          \<and> (drop j s = [] \<or> drop j s = [newline]))"
    by (auto simp: less_Suc_eq_le)
  finally show ?thesis .
qed

lemma anchored_class_match:
  "re_match (Seq Bol (Seq (Rep P lo (Some hi)) Eol)) s \<noteq> None \<longleftrightarrow>
     (\<exists>t. (s = t \<or> s = t @ [newline]) \<and> lo \<le> length t \<and> length t \<le> hi \<and> list_all P t)"
proof -
  have "rmatch (Seq Bol (Seq (Rep P lo (Some hi)) Eol)) (0, s, [])
        = rmatch (Seq (Rep P lo (Some hi)) Eol) (0, s, [])"
    by (simp del: rmatch.simps(3,8))
  then have "re_match (Seq Bol (Seq (Rep P lo (Some hi)) Eol)) s \<noteq> None \<longleftrightarrow>
        (\<exists>j. lo \<le> j \<and> j \<le> hi \<and> j \<le> length (takeWhile P s)
             \<and> (drop j s = [] \<or> drop j s = [newline]))"
    by (simp only: re_match_None rep_then_eol)
  also have "\<dots> \<longleftrightarrow> (\<exists>t. (s = t \<or> s = t @ [newline]) \<and> lo \<le> length t \<and> length t \<le> hi
                        \<and> list_all P t)"
  proof
    assume "\<exists>j. lo \<le> j \<and> j \<le> hi \<and> j \<le> length (takeWhile P s)
             \<and> (drop j s = [] \<or> drop j s = [newline])"
    then obtain j where j: "lo \<le> j" "j \<le> hi" "j \<le> length s" "list_all P (take j s)"
        "drop j s = [] \<or> drop j s = [newline]"
      by (auto simp: le_length_takeWhile)
    define t where "t = take j s"
    have st: "s = t \<or> s = t @ [newline]"
    proof (cases "drop j s = []")
      case True
      then show ?thesis by (simp add: t_def)
    next
      case False
      with j(5) have "drop j s = [newline]" by simp
      then have "take j s @ [newline] = s"
        by (metis append_take_drop_id)
      then have "s = t @ [newline]" unfolding t_def by (rule sym)
      then show ?thesis by (rule disjI2)
    qed
    have lt: "length t = j" using j(3) by (simp add: t_def)
    have pt: "list_all P t" using j(4) by (simp add: t_def)
    from st lt pt j(1,2)
    have "(s = t \<or> s = t @ [newline]) \<and> lo \<le> length t \<and> length t \<le> hi \<and> list_all P t"
      by simp
    then show "\<exists>t. (s = t \<or> s = t @ [newline]) \<and> lo \<le> length t \<and> length t \<le> hi
                        \<and> list_all P t" ..
  next
    assume "\<exists>t. (s = t \<or> s = t @ [newline]) \<and> lo \<le> length t \<and> length t \<le> hi \<and> list_all P t"
    then obtain t where t: "s = t \<or> s = t @ [newline]" "lo \<le> length t" "length t \<le> hi"
        "list_all P t"
      by blast
    from t(1,4) have "length t \<le> length (takeWhile P s)"
      by (auto simp: le_length_takeWhile)
    moreover from t(1) have "drop (length t) s = [] \<or> drop (length t) s = [newline]"
      by auto
    ultimately have "lo \<le> length t \<and> length t \<le> hi \<and> length t \<le> length (takeWhile P s)
             \<and> (drop (length t) s = [] \<or> drop (length t) s = [newline])"
      using t(2,3) by simp
    then show "\<exists>j. lo \<le> j \<and> j \<le> hi \<and> j \<le> length (takeWhile P s)
             \<and> (drop j s = [] \<or> drop j s = [newline])" ..
  qed
  finally show ?thesis .
qed

lemma flight_id_accepted:
  "re_match flight_id_re s \<noteq> None \<longleftrightarrow>
     (\<exists>t. (s = t \<or> s = t @ [newline]) \<and> 2 \<le> length t \<and> length t \<le> 8 \<and> list_all is_alnum t)"
  unfolding flight_id_re_def by (rule anchored_class_match)

lemma airport_accepted:
  "re_match airport_re s \<noteq> None \<longleftrightarrow>
     (\<exists>t. (s = t \<or> s = t @ [newline]) \<and> length t = 3 \<and> list_all is_upper t)"
  unfolding airport_re_def by (simp only: anchored_class_match) auto









lemma code_literals:
  "code CHR ''0'' = 48" "code CHR ''1'' = 49" "code CHR ''2'' = 50" "code CHR ''3'' = 51"
  "code CHR ''5'' = 53" "code CHR ''9'' = 57" "code CHR '' '' = 32" "code CHR ''-'' = 45"
  "code CHR '':'' = 58"
  by (simp_all add: code_def)





lemma int_of_group_blank:
  "in_range CHR ''1'' CHR ''9'' c \<Longrightarrow> int_of_group [CHR '' '', c] = digit_val c"
  by (auto simp: int_of_group_def py_isspace_def in_range_def code_literals)
































































end
